theory Spec2Isabelle
  imports Main "HOL-Library.Char_ord" "HOL-Library.List_Lexorder"
begin

section \<open>JavaScript values\<close>

text \<open>
  The store keeps one JSON document. A value is what \<open>JSON.parse\<close> yields, plus
  \<open>undefined\<close>, which a property read yields for a name that is found nowhere, plus the
  members of \<open>Object.prototype\<close>, which a read finds under a name the value does not own:
  \<open>JBuiltin k\<close> is \<open>Object.prototype[k]\<close>, a function (under \<open>__proto__\<close> the
  prototype itself, an object).

  An object is the list of its own enumerable properties in enumeration order: a new key
  goes to the end, assigning to a key the object owns keeps its place (keys that are array
  indices, which engines enumerate first, are not treated apart). Strings are sequences of
  8-bit code units, numbers are the integer-valued ones. The prototype of an object is
  \<open>Object.prototype\<close>; an assignment to \<open>__proto__\<close> replaces it and stores no
  property, and a value does not record the replaced prototype. An array carries its
  elements only: its elements and length, and those of a string, are not read as
  properties in this model, and a named property stored on an array is not recorded.
\<close>

datatype jsval =
    JUndef
  | JNull
  | JBool bool
  | JNum int
  | JStr string
  | JArr "jsval list"
  | JObj "(string \<times> jsval) list"
  | JBuiltin string

type_synonym obj = "(string \<times> jsval) list"

text \<open>\<open>!v\<close> is false exactly for the truthy values.\<close>

fun truthy :: "jsval \<Rightarrow> bool" where
  "truthy JUndef = False"
| "truthy JNull = False"
| "truthy (JBool b) = b"
| "truthy (JNum n) = (n \<noteq> 0)"
| "truthy (JStr s) = (s \<noteq> [])"
| "truthy (JArr xs) = True"
| "truthy (JObj kvs) = True"
| "truthy (JBuiltin n) = True"

text \<open>\<open>v || {}\<close>\<close>

definition or_empty :: "jsval \<Rightarrow> jsval" where
  "or_empty v = (if truthy v then v else JObj [])"

text \<open>Reading a property of \<open>null\<close> or \<open>undefined\<close> throws a \<open>TypeError\<close>.\<close>

definition nullish :: "jsval \<Rightarrow> bool" where
  "nullish v = (v = JUndef \<or> v = JNull)"

text \<open>The value of the own property \<open>k\<close> of an object, \<open>undefined\<close> when it has none.\<close>

definition obj_get :: "obj \<Rightarrow> string \<Rightarrow> jsval" where
  "obj_get kvs k = (case map_of kvs k of Some v \<Rightarrow> v | None \<Rightarrow> JUndef)"

text \<open>Storing the own property \<open>k\<close> of an object.\<close>

fun obj_set :: "obj \<Rightarrow> string \<Rightarrow> jsval \<Rightarrow> obj" where
  "obj_set [] k v = [(k, v)]"
| "obj_set ((k', v') # kvs) k v =
     (if k' = k then (k, v) # kvs else (k', v') # obj_set kvs k v)"

text \<open>\<open>delete o[k]\<close> removes an own property.\<close>

definition obj_delete :: "obj \<Rightarrow> string \<Rightarrow> obj" where
  "obj_delete kvs k = filter (\<lambda>kv. fst kv \<noteq> k) kvs"

text \<open>\<open>Object.keys(o)\<close>: the own enumerable keys.\<close>

definition obj_keys :: "obj \<Rightarrow> string list" where
  "obj_keys kvs = map fst kvs"

text \<open>The names every object inherits from \<open>Object.prototype\<close>.\<close>

definition object_prototype_names :: "string list" where
  "object_prototype_names =
     [''constructor'', ''hasOwnProperty'', ''isPrototypeOf'', ''propertyIsEnumerable'',
      ''toLocaleString'', ''toString'', ''valueOf'', ''__proto__'',
      ''__defineGetter__'', ''__defineSetter__'', ''__lookupGetter__'', ''__lookupSetter__'']"

definition inherited :: "string \<Rightarrow> jsval" where
  "inherited k = (if k \<in> set object_prototype_names then JBuiltin k else JUndef)"

text \<open>
  \<open>o[k]\<close>: the own property if there is one, else what the prototype chain gives. On
  \<open>null\<close> and \<open>undefined\<close> the read throws; the operations test \<open>nullish\<close> before
  they read.
\<close>

fun get :: "jsval \<Rightarrow> string \<Rightarrow> jsval" where
  "get JUndef k = JUndef"
| "get JNull k = JUndef"
| "get (JObj kvs) k = (if k \<in> set (obj_keys kvs) then obj_get kvs k else inherited k)"
| "get v k = inherited k"

text \<open>
  \<open>o[k] = v\<close>, outside strict mode. On an object that does not own \<open>__proto__\<close> the
  assignment to that name goes to the setter of \<open>Object.prototype\<close>: no property is
  stored. On a boolean, a number or a string the assignment is dropped. On \<open>null\<close>
  and \<open>undefined\<close> it throws; the operations test \<open>nullish\<close> before they assign.
\<close>

fun put :: "jsval \<Rightarrow> string \<Rightarrow> jsval \<Rightarrow> jsval" where
  "put (JObj kvs) k v =
     (if k = ''__proto__'' \<and> k \<notin> set (obj_keys kvs) then JObj kvs
      else JObj (obj_set kvs k v))"
| "put w k v = w"

text \<open>\<open>Object.keys(v)\<close>\<close>

fun keys :: "jsval \<Rightarrow> string list" where
  "keys (JObj kvs) = obj_keys kvs"
| "keys _ = []"

section \<open>The canonical form: \<open>sort\<close>\<close>

text \<open>
  \<^verbatim>\<open>
  var sort = function(object) {
    if (typeof object !== 'object') return object;
    if (object === null) return null;
    if (object instanceof Array)
      return object.map(function(o) { return sort(o) })
    var copy = {}, keys = Object.keys(object).sort();
    for (var i = 0, n = keys.length; i < n; i++)
      copy[keys[i]] = sort(object[keys[i]]);
    return copy;
  };
  \<close>
  \<open>Array.prototype.sort\<close> without a comparator orders strings by their code units,
  which is the lexicographic order of \<open>string\<close>. The function is named
  \<open>sort_json\<close> here, \<open>sort\<close> being the list sort of HOL. Every \<open>keys[i]\<close> is
  an own key of \<open>object\<close>, so \<open>object[keys[i]]\<close> is its own value. A function is
  returned as it is; \<open>Object.prototype\<close> has no enumerable key and gives \<open>{}\<close>.
\<close>

function sort_json :: "jsval \<Rightarrow> jsval" where
  "sort_json JUndef = JUndef"
| "sort_json JNull = JNull"
| "sort_json (JBool b) = JBool b"
| "sort_json (JNum n) = JNum n"
| "sort_json (JStr s) = JStr s"
| "sort_json (JArr xs) = JArr (map sort_json xs)"
| "sort_json (JObj kvs) =
     JObj (foldl (\<lambda>copy k. obj_set copy k (sort_json (obj_get kvs k))) [] (sort (obj_keys kvs)))"
| "sort_json (JBuiltin n) = (if n = ''__proto__'' then JObj [] else JBuiltin n)"
  by pat_completeness auto
termination
proof (relation "measure size")
  show "wf (measure size)" by simp
next
  fix xs :: "jsval list" and x
  have "y \<in> set l \<Longrightarrow> size y \<le> size_list size l" for y :: jsval and l
    by (induction l) auto
  moreover assume "x \<in> set xs"
  ultimately show "(x, JArr xs) \<in> measure size" by (simp add: less_Suc_eq_le)
next
  fix kvs :: obj and k
  have "(k, v) \<in> set l \<Longrightarrow> size (obj_get l k) \<le> size_list (size_prod (\<lambda>x. 0) size) l" for v l
    by (induction l) (force simp: obj_get_def)+
  moreover assume "k \<in> set (sort (obj_keys kvs))"
  ultimately show "(obj_get kvs k, JObj kvs) \<in> measure size"
    by (auto simp: obj_keys_def less_Suc_eq_le)
qed

section \<open>The store and its collaborators\<close>

datatype io_error = IOError string
datatype cipher_error = CipherError string
datatype parse_error = SyntaxError string

text \<open>
  What a callback receives as its first argument:
  \<open>StoreUnreadable\<close> is \<open>new Error('Your .vault file is unreadable; ...')\<close>,
  \<open>ServiceNotConfigured s\<close> is \<open>new Error('Service "' + s + '" is not configured')\<close>,
  \<open>Io\<close> and \<open>Cipher\<close> are the errors of \<open>fs\<close> and of the cipher handed on as
  they are. \<open>TypeError\<close> is not handed to a callback: it is thrown by a read of a
  property of \<open>null\<close> or \<open>undefined\<close>, and the callback is not called.
\<close>

datatype error =
    StoreUnreadable
  | ServiceNotConfigured string
  | Io io_error
  | Cipher cipher_error
  | TypeError

text \<open>
  The cipher (with its key), \<open>JSON.parse\<close>, \<open>JSON.stringify\<close> and the conversion of
  a value to a property key are parameters.
\<close>

record env =
  decrypt :: "string \<Rightarrow> cipher_error + string"
  encrypt :: "string \<Rightarrow> cipher_error + string"
  parse :: "string \<Rightarrow> parse_error + jsval"
  stringify :: "jsval \<Rightarrow> string"
  to_string :: "jsval \<Rightarrow> string"

text \<open>
  The file at \<open>_path\<close>: what \<open>fs.readFile\<close> reports, what \<open>fs.writeFile\<close> will
  report, and a log of the calls of both. The data of a write is \<open>None\<close> when
  \<open>undefined\<close> is passed; \<open>fs.writeFile\<close> then writes \<open>'' + data\<close>. A write
  that reports an error leaves the file as it was.
\<close>

record world =
  on_disk :: "io_error + string"
  write_error :: "io_error option"
  reads :: nat
  writes :: "string option list"

text \<open>
  The instance: \<open>_cache\<close>, \<open>_configCache\<close> (\<open>undefined\<close> until a load assigns it)
  and \<open>_source\<close>.
\<close>

record local_store =
  cache :: bool
  configCache :: jsval
  source :: jsval


definition new_store :: "bool \<Rightarrow> local_store" where
  "new_store c = \<lparr>cache = c, configCache = JUndef, source = JUndef\<rparr>"


definition empty_document :: obj where
  "empty_document = [(''global'', JObj []), (''services'', JObj []), (''sources'', JObj [])]"

text \<open>
  \<open>load\<close>. The value it hands to the callback is either the one held in
  \<open>_configCache\<close> or a fresh one; \<open>load_ref\<close> says which, since the operations
  change the document in place before they dump it. Whatever \<open>JSON.parse\<close> yields is
  stored and handed on, an object or not.
\<close>

definition load_ref ::
  "env \<Rightarrow> local_store \<Rightarrow> world \<Rightarrow> (error + jsval \<times> bool) \<times> local_store \<times> world" where
  "load_ref E st w =
     (if cache st \<and> truthy (configCache st) then (Inr (configCache st, True), st, w)
      else
        (let w' = w\<lparr>reads := Suc (reads w)\<rparr> in
         case on_disk w of
           Inl e \<Rightarrow> (Inr (JObj empty_document, False), st, w')
         | Inr content \<Rightarrow>
             (case decrypt E content of
                Inl e \<Rightarrow> (Inl StoreUnreadable, st, w')
              | Inr plaintext \<Rightarrow>
                  (case parse E plaintext of
                     Inl e \<Rightarrow> (Inl StoreUnreadable, st, w')
                   | Inr config \<Rightarrow>
                       (Inr (config, True), st\<lparr>configCache := config\<rparr>, w')))))"

definition load :: "env \<Rightarrow> local_store \<Rightarrow> world \<Rightarrow> (error + jsval) \<times> local_store \<times> world" where
  "load E st w =
     (case load_ref E st w of
        (Inl e, st', w') \<Rightarrow> (Inl e, st', w')
      | (Inr (config, shared), st', w') \<Rightarrow> (Inr config, st', w'))"

text \<open>The document changed in place: the cache sees the change when it holds that object.\<close>

definition in_place :: "bool \<Rightarrow> jsval \<Rightarrow> local_store \<Rightarrow> local_store" where
  "in_place shared config st = (if shared then st\<lparr>configCache := config\<rparr> else st)"

text \<open>\<open>fs.writeFile(this._path, data, function() { ... arguments ... })\<close>\<close>

definition writeFile :: "string option \<Rightarrow> world \<Rightarrow> (error + unit) \<times> world" where
  "writeFile data w =
     (let w' = w\<lparr>writes := writes w @ [data]\<rparr> in
      case write_error w of
        Some e \<Rightarrow> (Inl (Io e), w')
      | None \<Rightarrow>
          (Inr (), w'\<lparr>on_disk := Inr (case data of Some c \<Rightarrow> c | None \<Rightarrow> ''undefined'')\<rparr>))"

text \<open>
  \<open>dump\<close>. The callback of \<open>encrypt\<close> does not look at its \<open>error\<close>; when the
  cipher fails, \<open>ciphertext\<close> is \<open>undefined\<close> and is written all the same.
\<close>

definition dump ::
  "env \<Rightarrow> jsval \<Rightarrow> local_store \<Rightarrow> world \<Rightarrow> (error + unit) \<times> local_store \<times> world" where
  "dump E config st w =
     (let config' = sort_json config;
          json = stringify E config';
          ciphertext = (case encrypt E json of Inl error \<Rightarrow> None | Inr c \<Rightarrow> Some c);
          (r, w') = writeFile ciphertext w
      in (r, st, w'))"

section \<open>The merge helper\<close>

text \<open>
  Modelled from the spec: \<open>Vault.extend(target, source)\<close>, the merge helper of
  \<open>lib/vault\<close>, which is not among the sources. The spec fixes what the two calls in
  \<open>serviceSettings\<close> and in \<open>saveGlobals\<close> give (the mapping merged first takes
  precedence, the keys of the second that it lacks are added), so \<open>extend\<close> copies into
  \<open>target\<close> every key of \<open>source\<close> (\<open>src\<close> below) that \<open>target\<close> does not own and leaves the
  keys \<open>target\<close> owns as they are. Nothing is merged from or into a value that is not a
  mapping.
\<close>

fun extend_obj :: "obj \<Rightarrow> obj \<Rightarrow> obj" where
  "extend_obj target [] = target"
| "extend_obj target ((k, v) # src) =
     extend_obj (if k \<in> set (obj_keys target) then target else obj_set target k v) src"

fun extend :: "jsval \<Rightarrow> jsval \<Rightarrow> jsval" where
  "extend (JObj target) (JObj src) = JObj (extend_obj target src)"
| "extend target src = target"

section \<open>The operations\<close>

definition saveGlobals ::
  "env \<Rightarrow> jsval \<Rightarrow> local_store \<Rightarrow> world \<Rightarrow> (error + unit) \<times> local_store \<times> world" where
  "saveGlobals E settings st w =
     (case load_ref E st w of
        (Inl error, st', w') \<Rightarrow> (Inl error, st', w')
      | (Inr (config, shared), st', w') \<Rightarrow>
          if nullish config then (Inl TypeError, st', w')
          else
            (let saved = or_empty (get config ''global'');
                 updated = JObj [];
                 updated = extend updated settings;
                 updated = extend updated saved;
                 config = put config ''global'' updated
             in dump E config (in_place shared config st') w'))"

text \<open>
  In \<open>saveService\<close> the object that \<open>config.services\<close> holds is changed in place
  by \<open>config.services[service] = updated\<close>.
\<close>

definition saveService ::
  "env \<Rightarrow> string \<Rightarrow> jsval \<Rightarrow> local_store \<Rightarrow> world \<Rightarrow> (error + unit) \<times> local_store \<times> world" where
  "saveService E service settings st w =
     (case load_ref E st w of
        (Inl error, st', w') \<Rightarrow> (Inl error, st', w')
      | (Inr (config, shared), st', w') \<Rightarrow>
          if nullish config then (Inl TypeError, st', w')
          else
            (let config = put config ''services'' (or_empty (get config ''services''));
                 services = get config ''services''
             in if nullish services then (Inl TypeError, in_place shared config st', w')
                else
                  (let saved = or_empty (get services service);
                       updated = JObj [];
                       updated = extend updated settings;
                       updated = extend updated saved;
                       config = put config ''services'' (put services service updated)
                   in dump E config (in_place shared config st') w')))"

text \<open>\<open>delete config.services[service]\<close>\<close>

fun delete_prop :: "jsval \<Rightarrow> string \<Rightarrow> jsval" where
  "delete_prop (JObj kvs) k = JObj (obj_delete kvs k)"
| "delete_prop v k = v"

definition deleteService ::
  "env \<Rightarrow> string \<Rightarrow> local_store \<Rightarrow> world \<Rightarrow> (error + unit) \<times> local_store \<times> world" where
  "deleteService E service st w =
     (case load_ref E st w of
        (Inl error, st', w') \<Rightarrow> (Inl error, st', w')
      | (Inr (config, shared), st', w') \<Rightarrow>
          if nullish config then (Inl TypeError, st', w')
          else if \<not> truthy (get config ''services'')
                  \<or> \<not> truthy (get (get config ''services'') service)
          then (Inl (ServiceNotConfigured service), st', w')
          else
            (let config = put config ''services''
                            (delete_prop (get config ''services'') service)
             in dump E config (in_place shared config st') w'))"

text \<open>The callback gets \<open>null\<close> for a service without settings.\<close>

definition serviceSettings ::
  "env \<Rightarrow> string \<Rightarrow> bool \<Rightarrow> local_store \<Rightarrow> world \<Rightarrow> (error + jsval) \<times> local_store \<times> world" where
  "serviceSettings E service includeGlobal st w =
     (case load E st w of
        (Inl error, st', w') \<Rightarrow> (Inl error, st', w')
      | (Inr config, st', w') \<Rightarrow>
          if nullish config then (Inl TypeError, st', w')
          else if \<not> includeGlobal
                  \<and> (\<not> truthy (get config ''services'')
                       \<or> \<not> truthy (get (get config ''services'') service))
          then (Inr JNull, st', w')
          else
            (let settings = JObj [];
                 settings = extend settings
                              (or_empty (get (or_empty (get config ''services'')) service));
                 settings = extend settings (or_empty (get config ''global''))
             in (Inr settings, st', w')))"




text \<open>
  \<open>Vault.extend(config.global, settings.global)\<close> changes the object that
  \<open>config.global\<close> holds.
\<close>

definition extend_prop :: "jsval \<Rightarrow> string \<Rightarrow> jsval \<Rightarrow> jsval" where
  "extend_prop config k src =
     (case get config k of
        JObj target \<Rightarrow> put config k (extend (JObj target) src)
      | _ \<Rightarrow> config)"

definition import ::
  "env \<Rightarrow> jsval \<Rightarrow> local_store \<Rightarrow> world \<Rightarrow> (error + unit) \<times> local_store \<times> world" where
  "import E settings st w =
     (case load_ref E st w of
        (Inl error, st', w') \<Rightarrow> (Inl error, st', w')
      | (Inr (config, shared), st', w') \<Rightarrow>
          if nullish config \<or> nullish settings then (Inl TypeError, st', w')
          else
            (let config = extend_prop config ''global'' (get settings ''global'');
                 config = extend_prop config ''services'' (get settings ''services'')
             in dump E config (in_place shared config st') w'))"

section \<open>Notions used by the properties\<close>




text \<open>
  One \<open>load\<close> after the other on the same instance, the file being in the state
  \<open>ws ! i\<close> at the \<open>i\<close>-th of them.
\<close>

fun load_each ::
  "env \<Rightarrow> local_store \<Rightarrow> world list \<Rightarrow> ((error + jsval) \<times> local_store \<times> world) list" where
  "load_each E st [] = []"
| "load_each E st (w # ws) = load E st w # load_each E (fst (snd (load E st w))) ws"

section \<open>An example store\<close>

text \<open>
  A concrete store, to run the operations on. Its cipher is the identity on the two
  ciphertexts it accepts; \<open>show_json\<close> stands in for \<open>JSON.stringify\<close> (no
  indentation, no quotes) and for the conversion to a property key.
\<close>

fun join :: "string \<Rightarrow> string list \<Rightarrow> string" where
  "join sep [] = []"
| "join sep [x] = x"
| "join sep (x # y # ys) = x @ sep @ join sep (y # ys)"

fun show_nat :: "nat \<Rightarrow> string" where
  "show_nat n =
     (if n < 10 then [char_of (n + 48)] else show_nat (n div 10) @ [char_of (n mod 10 + 48)])"

fun show_json :: "jsval \<Rightarrow> string" where
  "show_json JUndef = ''undefined''"
| "show_json JNull = ''null''"
| "show_json (JBool b) = (if b then ''true'' else ''false'')"
| "show_json (JNum n) = (if n < 0 then ''-'' @ show_nat (nat (- n)) else show_nat (nat n))"
| "show_json (JStr s) = s"
| "show_json (JBuiltin n) = n"
| "show_json (JArr xs) = ''['' @ join '','' (map show_json xs) @ '']''"
| "show_json (JObj kvs) =
     ''{'' @ join '','' (map (\<lambda>(k, v). k @ '':'' @ show_json v) kvs) @ ''}''"

definition demo_env :: env where
  "demo_env =
     \<lparr>decrypt = (\<lambda>c. if c = ''{}'' \<or> c = ''null'' then Inr c else Inl (CipherError ''bad key'')),
      encrypt = Inr,
      parse = (\<lambda>p. if p = ''{}'' then Inr (JObj []) else if p = ''null'' then Inr JNull
                    else Inl (SyntaxError p)),
      stringify = show_json,
      to_string = show_json\<rparr>"

definition demo_document :: obj where
  "demo_document =
     [(''global'', JObj [(''user'', JStr ''alice''), (''length'', JNum 20)]),
      (''services'', JObj [(''github'', JObj [(''user'', JStr ''carol'')])]),
      (''sources'', JObj [(''home'', JObj [(''url'', JStr ''home.example'')]),
                         (''__current__'', JStr ''home'')])]"

definition demo_store :: local_store where
  "demo_store = \<lparr>cache = True, configCache = JObj demo_document, source = JUndef\<rparr>"

definition demo_world :: world where
  "demo_world = \<lparr>on_disk = Inl (IOError ''ENOENT''), write_error = None, reads = 0, writes = []\<rparr>"

section \<open>The canonical form is idempotent and insensitive to key order\<close>

















section \<open>Loading\<close>

lemma load_ref_hit:
  "cache st \<Longrightarrow> truthy (configCache st) \<Longrightarrow>
   load_ref E st w = (Inr (configCache st, True), st, w)"
  by (simp add: load_ref_def)

lemma load_ref_read:
  "\<not> (cache st \<and> truthy (configCache st)) \<Longrightarrow>
   load_ref E st w =
     (case on_disk w of
        Inl e \<Rightarrow> (Inr (JObj empty_document, False), st, w\<lparr>reads := Suc (reads w)\<rparr>)
      | Inr content \<Rightarrow>
          (case decrypt E content of
             Inl e \<Rightarrow> (Inl StoreUnreadable, st, w\<lparr>reads := Suc (reads w)\<rparr>)
           | Inr plaintext \<Rightarrow>
               (case parse E plaintext of
                  Inl e \<Rightarrow> (Inl StoreUnreadable, st, w\<lparr>reads := Suc (reads w)\<rparr>)
                | Inr config \<Rightarrow>
                    (Inr (config, True), st\<lparr>configCache := config\<rparr>,
                     w\<lparr>reads := Suc (reads w)\<rparr>))))"
  by (auto simp: load_ref_def Let_def)

lemma load_hit:
  "cache st \<Longrightarrow> truthy (configCache st) \<Longrightarrow> load E st w = (Inr (configCache st), st, w)"
  by (simp add: load_def load_ref_hit)


lemma load_each_hit:
  "cache st \<Longrightarrow> truthy (configCache st) \<Longrightarrow>
   load_each E st ws = map (\<lambda>w. (Inr (configCache st), st, w)) ws"
  by (induction ws) (simp_all add: load_hit)


text \<open>
  C3. A \<open>load\<close> that reads the file (no cached document is returned) and gets its
  content fails with \<open>StoreUnreadable\<close> when the cipher cannot decrypt the content, and
  also when it can and the plaintext does not parse. The result is the same in both cases,
  whatever the cipher's or the parser's own error was: the callback cannot tell them apart.
\<close>

theorem load_unreadable:
  assumes "\<not> (cache st \<and> truthy (configCache st))"
    and "on_disk w = Inr content"
    and "decrypt E1 content = Inl cipher_failure"
    and "decrypt E2 content = Inr plaintext" and "parse E2 plaintext = Inl parse_failure"
  shows "load E1 st w = (Inl StoreUnreadable, st, w\<lparr>reads := Suc (reads w)\<rparr>)
       \<and> load E2 st w = (Inl StoreUnreadable, st, w\<lparr>reads := Suc (reads w)\<rparr>)"
  using assms by (simp add: load_def load_ref_read)

text \<open>Both causes on the example store: a key that does not decrypt, and one that
  decrypts to text that is not JSON.\<close>

theorem load_unreadable_witness:
  "\<not> (cache (new_store True) \<and> truthy (configCache (new_store True)))
   \<and> on_disk (demo_world\<lparr>on_disk := Inr ''garbage''\<rparr>) = Inr ''garbage''
   \<and> decrypt demo_env ''garbage'' = Inl (CipherError ''bad key'')
   \<and> decrypt (demo_env\<lparr>decrypt := Inr\<rparr>) ''garbage'' = Inr ''garbage''
   \<and> parse (demo_env\<lparr>decrypt := Inr\<rparr>) ''garbage'' = Inl (SyntaxError ''garbage'')
   \<and> load demo_env (new_store True) (demo_world\<lparr>on_disk := Inr ''garbage''\<rparr>)
       = (Inl StoreUnreadable, new_store True,
          demo_world\<lparr>on_disk := Inr ''garbage'', reads := 1\<rparr>)
   \<and> load (demo_env\<lparr>decrypt := Inr\<rparr>) (new_store True) (demo_world\<lparr>on_disk := Inr ''garbage''\<rparr>)
       = (Inl StoreUnreadable, new_store True,
          demo_world\<lparr>on_disk := Inr ''garbage'', reads := 1\<rparr>)"
proof -
  have c: "\<not> (cache (new_store True) \<and> truthy (configCache (new_store True)))"
    by (simp add: new_store_def)
  have f: "on_disk (demo_world\<lparr>on_disk := Inr ''garbage''\<rparr>) = Inr ''garbage''"
    by simp
  have d1: "decrypt demo_env ''garbage'' = Inl (CipherError ''bad key'')"
    and d2: "decrypt (demo_env\<lparr>decrypt := Inr\<rparr>) ''garbage'' = Inr ''garbage''"
    and p2: "parse (demo_env\<lparr>decrypt := Inr\<rparr>) ''garbage'' = Inl (SyntaxError ''garbage'')"
    by (simp_all add: demo_env_def)
  have r: "reads demo_world = 0"
    by (simp add: demo_world_def)
  from load_unreadable [OF c f d1 d2 p2] c f d1 d2 p2 r show ?thesis
    by simp
qed

text \<open>
  C4. A \<open>load\<close> that reads the file and gets an error from the read succeeds with the
  fresh empty document \<open>{global: {}, services: {}, sources: {}}\<close>; the instance is
  left as it was.
\<close>

theorem load_absent:
  assumes "\<not> (cache st \<and> truthy (configCache st))"
    and "on_disk w = Inl e"
  shows "load E st w = (Inr (JObj empty_document), st, w\<lparr>reads := Suc (reads w)\<rparr>)
       \<and> JObj empty_document
           = JObj [(''global'', JObj []), (''services'', JObj []), (''sources'', JObj [])]"
  using assms by (simp add: load_def load_ref_read empty_document_def)

text \<open>The example store on a file that does not exist.\<close>

theorem load_absent_witness:
  "\<not> (cache (new_store True) \<and> truthy (configCache (new_store True)))
   \<and> on_disk demo_world = Inl (IOError ''ENOENT'')
   \<and> load demo_env (new_store True) demo_world
       = (Inr (JObj [(''global'', JObj []), (''services'', JObj []), (''sources'', JObj [])]),
          new_store True, demo_world\<lparr>reads := 1\<rparr>)"
proof -
  have c: "\<not> (cache (new_store True) \<and> truthy (configCache (new_store True)))"
    by (simp add: new_store_def)
  have f: "on_disk demo_world = Inl (IOError ''ENOENT'')" and r: "reads demo_world = 0"
    by (simp_all add: demo_world_def)
  from load_absent [OF c f, of demo_env] c f r show ?thesis
    by simp
qed

text \<open>
  C10, as the code has it. The empty document of an absent file is not stored in the
  cache. A \<open>load\<close> that reads, decrypts and parses the file stores the parsed value in
  the cache, and \<open>load\<close> changes the cache in no other case. While caching is on and the
  cache holds no truthy value, every \<open>load\<close> reads the file. Once caching is on and the
  cache holds a truthy value (every object is one), each \<open>load\<close> of any sequence of
  loads returns that value, reads nothing and leaves the instance as it is, whatever the
  file has become; so it is after a \<open>load\<close> that has parsed the file to a truthy value.
\<close>

theorem load_cache:
  "(\<not> (cache st \<and> truthy (configCache st)) \<and> on_disk w = Inl e \<longrightarrow>
      load E st w = (Inr (JObj empty_document), st, w\<lparr>reads := Suc (reads w)\<rparr>))
   \<and> (\<not> (cache st \<and> truthy (configCache st)) \<and> on_disk w = Inr content
        \<and> decrypt E content = Inr plaintext \<and> parse E plaintext = Inr config \<longrightarrow>
      load E st w
        = (Inr config, st\<lparr>configCache := config\<rparr>, w\<lparr>reads := Suc (reads w)\<rparr>))
   \<and> (configCache (fst (snd (load E st w))) \<noteq> configCache st \<longrightarrow>
      (\<exists>content plaintext config.
         on_disk w = Inr content \<and> decrypt E content = Inr plaintext
         \<and> parse E plaintext = Inr config
         \<and> load E st w
             = (Inr config, st\<lparr>configCache := config\<rparr>, w\<lparr>reads := Suc (reads w)\<rparr>)))
   \<and> (cache st \<and> \<not> truthy (configCache st) \<longrightarrow>
      reads (snd (snd (load E st w))) = Suc (reads w))
   \<and> (cache st \<and> truthy (configCache st) \<longrightarrow>
      load_each E st ws = map (\<lambda>w. (Inr (configCache st), st, w)) ws)
   \<and> (cache st \<and> \<not> truthy (configCache st) \<and> on_disk w = Inr content
        \<and> decrypt E content = Inr plaintext \<and> parse E plaintext = Inr config
        \<and> truthy config \<longrightarrow>
      load_each E (fst (snd (load E st w))) ws
        = map (\<lambda>w. (Inr config, st\<lparr>configCache := config\<rparr>, w)) ws)"
proof (intro conjI impI)
  assume "\<not> (cache st \<and> truthy (configCache st)) \<and> on_disk w = Inl e"
  then show "load E st w = (Inr (JObj empty_document), st, w\<lparr>reads := Suc (reads w)\<rparr>)"
    by (simp add: load_def load_ref_read)
next
  assume "\<not> (cache st \<and> truthy (configCache st)) \<and> on_disk w = Inr content
        \<and> decrypt E content = Inr plaintext \<and> parse E plaintext = Inr config"
  then show "load E st w
        = (Inr config, st\<lparr>configCache := config\<rparr>, w\<lparr>reads := Suc (reads w)\<rparr>)"
    by (simp add: load_def load_ref_read)
next
  assume changed: "configCache (fst (snd (load E st w))) \<noteq> configCache st"
  show "\<exists>content plaintext config.
         on_disk w = Inr content \<and> decrypt E content = Inr plaintext
         \<and> parse E plaintext = Inr config
         \<and> load E st w
             = (Inr config, st\<lparr>configCache := config\<rparr>, w\<lparr>reads := Suc (reads w)\<rparr>)"
  proof (cases "cache st \<and> truthy (configCache st)")
    case True
    with changed show ?thesis by (auto simp: load_hit)
  next
    case False
    with changed show ?thesis
      by (auto simp: load_def load_ref_read split: sum.splits)
  qed
next
  assume "cache st \<and> \<not> truthy (configCache st)"
  then show "reads (snd (snd (load E st w))) = Suc (reads w)"
    by (simp add: load_def load_ref_read split: sum.splits)
next
  assume "cache st \<and> truthy (configCache st)"
  then show "load_each E st ws = map (\<lambda>w. (Inr (configCache st), st, w)) ws"
    by (simp add: load_each_hit)
next
  assume a: "cache st \<and> \<not> truthy (configCache st) \<and> on_disk w = Inr content
        \<and> decrypt E content = Inr plaintext \<and> parse E plaintext = Inr config
        \<and> truthy config"
  then have "load E st w
      = (Inr config, st\<lparr>configCache := config\<rparr>, w\<lparr>reads := Suc (reads w)\<rparr>)"
    by (simp add: load_def load_ref_read)
  moreover have "load_each E (st\<lparr>configCache := config\<rparr>) ws
      = map (\<lambda>w. (Inr (configCache (st\<lparr>configCache := config\<rparr>)), st\<lparr>configCache := config\<rparr>, w)) ws"
    using a by (intro load_each_hit) simp_all
  ultimately show "load_each E (fst (snd (load E st w))) ws
        = map (\<lambda>w. (Inr config, st\<lparr>configCache := config\<rparr>, w)) ws"
    by simp
qed

text \<open>A fresh instance on an absent file and on a readable file, the loads that follow
  the readable file, and the loads of the example store.\<close>

theorem load_cache_witness:
  "load demo_env (new_store True) demo_world
     = (Inr (JObj empty_document), new_store True, demo_world\<lparr>reads := 1\<rparr>)
   \<and> reads (snd (snd (load demo_env (new_store True) demo_world))) = 1
   \<and> load demo_env (new_store True) (demo_world\<lparr>on_disk := Inr ''{}''\<rparr>)
       = (Inr (JObj []), (new_store True)\<lparr>configCache := JObj []\<rparr>,
          demo_world\<lparr>on_disk := Inr ''{}'', reads := 1\<rparr>)
   \<and> configCache (fst (snd (load demo_env (new_store True) (demo_world\<lparr>on_disk := Inr ''{}''\<rparr>))))
       \<noteq> configCache (new_store True)
   \<and> load_each demo_env
         (fst (snd (load demo_env (new_store True) (demo_world\<lparr>on_disk := Inr ''{}''\<rparr>))))
         [demo_world, demo_world\<lparr>on_disk := Inr ''garbage''\<rparr>]
       = [(Inr (JObj []), (new_store True)\<lparr>configCache := JObj []\<rparr>, demo_world),
          (Inr (JObj []), (new_store True)\<lparr>configCache := JObj []\<rparr>,
           demo_world\<lparr>on_disk := Inr ''garbage''\<rparr>)]
   \<and> load_each demo_env demo_store [demo_world, demo_world\<lparr>on_disk := Inr ''garbage''\<rparr>]
       = [(Inr (JObj demo_document), demo_store, demo_world),
          (Inr (JObj demo_document), demo_store, demo_world\<lparr>on_disk := Inr ''garbage''\<rparr>)]"
proof -
  let ?st = "new_store True"
  let ?w = "demo_world\<lparr>on_disk := Inr ''{}''\<rparr>"
  let ?ws = "[demo_world, demo_world\<lparr>on_disk := Inr ''garbage''\<rparr>]"
  have c: "cache ?st" "\<not> truthy (configCache ?st)" "configCache ?st = JUndef"
    by (simp_all add: new_store_def)
  have d: "cache demo_store" "truthy (configCache demo_store)"
      "configCache demo_store = JObj demo_document"
    by (simp_all add: demo_store_def)
  have f: "on_disk demo_world = Inl (IOError ''ENOENT'')" "reads demo_world = 0"
      "on_disk ?w = Inr ''{}''" "reads ?w = 0"
    by (simp_all add: demo_world_def)
  have e: "decrypt demo_env ''{}'' = Inr ''{}''" "parse demo_env ''{}'' = Inr (JObj [])"
    by (simp_all add: demo_env_def)
  note t1 = load_cache [of ?st demo_world "IOError ''ENOENT''" demo_env]
  note t2 = load_cache [of ?st ?w _ demo_env "''{}''" "''{}''" "JObj []" ?ws]
  note t3 = load_cache [of demo_store _ _ demo_env _ _ _ ?ws]
  have 1: "load demo_env ?st demo_world
      = (Inr (JObj empty_document), ?st, demo_world\<lparr>reads := Suc (reads demo_world)\<rparr>)"
    by (rule t1 [THEN conjunct1, THEN mp]) (simp add: c f)
  have 2: "reads (snd (snd (load demo_env ?st demo_world))) = Suc (reads demo_world)"
    by (rule t1 [THEN conjunct2, THEN conjunct2, THEN conjunct2, THEN conjunct1, THEN mp])
       (simp add: c)
  have 3: "load demo_env ?st ?w
      = (Inr (JObj []), ?st\<lparr>configCache := JObj []\<rparr>, ?w\<lparr>reads := Suc (reads ?w)\<rparr>)"
    by (rule t2 [THEN conjunct2, THEN conjunct1, THEN mp]) (simp add: c f e)
  have 4: "configCache (fst (snd (load demo_env ?st ?w))) \<noteq> configCache ?st"
    by (simp add: 3 c)
  have 5: "load_each demo_env (fst (snd (load demo_env ?st ?w))) ?ws
      = map (\<lambda>w. (Inr (JObj []), ?st\<lparr>configCache := JObj []\<rparr>, w)) ?ws"
    by (rule t2 [THEN conjunct2, THEN conjunct2, THEN conjunct2, THEN conjunct2, THEN conjunct2, THEN mp])
       (simp add: c f e)
  have 6: "load_each demo_env demo_store ?ws
      = map (\<lambda>w. (Inr (configCache demo_store), demo_store, w)) ?ws"
    by (rule t3 [THEN conjunct2, THEN conjunct2, THEN conjunct2, THEN conjunct2, THEN conjunct1, THEN mp])
       (simp add: d)
  have F1: "load demo_env ?st demo_world
      = (Inr (JObj empty_document), ?st, demo_world\<lparr>reads := 1\<rparr>)"
    unfolding 1 by (simp add: f)
  have F2: "reads (snd (snd (load demo_env ?st demo_world))) = 1"
    unfolding 2 by (simp add: f)
  have F3: "load demo_env ?st ?w
      = (Inr (JObj []), ?st\<lparr>configCache := JObj []\<rparr>,
         demo_world\<lparr>on_disk := Inr ''{}'', reads := 1\<rparr>)"
    unfolding 3 by (simp add: demo_world_def)
  have F5: "load_each demo_env (fst (snd (load demo_env ?st ?w))) ?ws
      = [(Inr (JObj []), ?st\<lparr>configCache := JObj []\<rparr>, demo_world),
         (Inr (JObj []), ?st\<lparr>configCache := JObj []\<rparr>,
          demo_world\<lparr>on_disk := Inr ''garbage''\<rparr>)]"
    unfolding 5 by simp
  have F6: "load_each demo_env demo_store ?ws
      = [(Inr (JObj demo_document), demo_store, demo_world),
         (Inr (JObj demo_document), demo_store, demo_world\<lparr>on_disk := Inr ''garbage''\<rparr>)]"
    unfolding 6 by (simp add: d)
  from F1 F2 F3 4 F5 F6 show ?thesis by (intro conjI)
qed

text \<open>
  C10 as the specification words it has every load after a successful decrypt-and-parse
  return the cached document. A file whose plaintext is \<open>null\<close> decrypts and parses;
  the value is stored, the test \<open>this._cache && this._configCache\<close> fails on it, and the
  next \<open>load\<close> reads the file again.
\<close>

theorem load_falsy_counterexample:
  "decrypt demo_env ''null'' = Inr ''null''
   \<and> parse demo_env ''null'' = Inr JNull
   \<and> load demo_env (new_store True) (demo_world\<lparr>on_disk := Inr ''null''\<rparr>)
       = (Inr JNull, (new_store True)\<lparr>configCache := JNull\<rparr>,
          demo_world\<lparr>on_disk := Inr ''null'', reads := 1\<rparr>)
   \<and> load demo_env ((new_store True)\<lparr>configCache := JNull\<rparr>)
         (demo_world\<lparr>on_disk := Inr ''null'', reads := 1\<rparr>)
       = (Inr JNull, (new_store True)\<lparr>configCache := JNull\<rparr>,
          demo_world\<lparr>on_disk := Inr ''null'', reads := 2\<rparr>)"
  by (simp add: load_def load_ref_def new_store_def demo_env_def demo_world_def)

section \<open>Listing the sources\<close>







section \<open>Saving settings\<close>

text \<open>
  C1. \<open>saveService\<close> does not save under every service name. On the example store,
  \<open>saveService('__proto__', {user: bob})\<close> reports success and dumps the document as
  it was: the assignment \<open>config.services[service] = updated\<close> stores no property under
  that name. Under \<open>gitlab\<close> the same settings are stored, cached and dumped.
\<close>

theorem saveService_proto_stores_nothing:
  "saveService demo_env ''__proto__'' (JObj [(''user'', JStr ''bob'')]) demo_store demo_world
     = (Inr (), demo_store,
        \<lparr>on_disk = Inr ''{global:{length:20,user:alice},services:{github:{user:carol}},sources:{__current__:home,home:{url:home.example}}}'',
         write_error = None, reads = 0,
         writes = [Some ''{global:{length:20,user:alice},services:{github:{user:carol}},sources:{__current__:home,home:{url:home.example}}}'']\<rparr>)
   \<and> saveService demo_env ''gitlab'' (JObj [(''user'', JStr ''bob'')]) demo_store demo_world
     = (Inr (),
        demo_store\<lparr>configCache :=
          JObj [(''global'', JObj [(''user'', JStr ''alice''), (''length'', JNum 20)]),
                (''services'', JObj [(''github'', JObj [(''user'', JStr ''carol'')]),
                                    (''gitlab'', JObj [(''user'', JStr ''bob'')])]),
                (''sources'', JObj [(''home'', JObj [(''url'', JStr ''home.example'')]),
                                   (''__current__'', JStr ''home'')])]\<rparr>,
        \<lparr>on_disk = Inr ''{global:{length:20,user:alice},services:{github:{user:carol},gitlab:{user:bob}},sources:{__current__:home,home:{url:home.example}}}'',
         write_error = None, reads = 0,
         writes = [Some ''{global:{length:20,user:alice},services:{github:{user:carol},gitlab:{user:bob}},sources:{__current__:home,home:{url:home.example}}}'']\<rparr>)"
  by code_simp

section \<open>Deleting a service\<close>

text \<open>
  C5. \<open>deleteService\<close> does not fail for every service that is not stored. On the
  example store, whose \<open>services\<close> has the one key \<open>github\<close>,
  \<open>deleteService('constructor')\<close> reports success and writes the file: the test
  \<open>!config.services[service]\<close> finds the member every object inherits. For
  \<open>missing\<close> it fails with \<open>ServiceNotConfigured\<close> and writes nothing, and
  \<open>github\<close> is removed, in the cache and in the file.
\<close>

theorem deleteService_inherited_name:
  "''constructor'' \<notin> set (keys (get (JObj demo_document) ''services''))
   \<and> deleteService demo_env ''constructor'' demo_store demo_world
       = (Inr (), demo_store,
          \<lparr>on_disk = Inr ''{global:{length:20,user:alice},services:{github:{user:carol}},sources:{__current__:home,home:{url:home.example}}}'',
           write_error = None, reads = 0,
           writes = [Some ''{global:{length:20,user:alice},services:{github:{user:carol}},sources:{__current__:home,home:{url:home.example}}}'']\<rparr>)
   \<and> deleteService demo_env ''missing'' demo_store demo_world
       = (Inl (ServiceNotConfigured ''missing''), demo_store, demo_world)
   \<and> deleteService demo_env ''github'' demo_store demo_world
       = (Inr (),
          demo_store\<lparr>configCache :=
            JObj [(''global'', JObj [(''user'', JStr ''alice''), (''length'', JNum 20)]),
                  (''services'', JObj []),
                  (''sources'', JObj [(''home'', JObj [(''url'', JStr ''home.example'')]),
                                     (''__current__'', JStr ''home'')])]\<rparr>,
          \<lparr>on_disk = Inr ''{global:{length:20,user:alice},services:{},sources:{__current__:home,home:{url:home.example}}}'',
           write_error = None, reads = 0,
           writes = [Some ''{global:{length:20,user:alice},services:{},sources:{__current__:home,home:{url:home.example}}}'']\<rparr>)"
  by code_simp

text \<open>The result and the write of \<open>deleteService('constructor')\<close> alone.\<close>

theorem deleteService_inherited_name_witness:
  "fst (deleteService demo_env ''constructor'' demo_store demo_world) = Inr ()
   \<and> writes (snd (snd (deleteService demo_env ''constructor'' demo_store demo_world))) \<noteq> []"
  using deleteService_inherited_name by simp

section \<open>Reading the settings of a service\<close>

text \<open>
  C6. \<open>serviceSettings\<close> does not yield \<open>null\<close> for every service that is not
  stored when \<open>includeGlobal\<close> is false. On the example store
  \<open>serviceSettings('toString', false)\<close> yields the global settings: the test
  \<open>!config.services[service]\<close> finds the member every object inherits. For
  \<open>missing\<close> it yields \<open>null\<close>, and for \<open>github\<close> the settings of the service
  over the global ones.
\<close>

theorem serviceSettings_inherited_name:
  "''toString'' \<notin> set (keys (get (JObj demo_document) ''services''))
   \<and> serviceSettings demo_env ''toString'' False demo_store demo_world
       = (Inr (JObj [(''user'', JStr ''alice''), (''length'', JNum 20)]), demo_store, demo_world)
   \<and> serviceSettings demo_env ''missing'' False demo_store demo_world
       = (Inr JNull, demo_store, demo_world)
   \<and> serviceSettings demo_env ''github'' False demo_store demo_world
       = (Inr (JObj [(''user'', JStr ''carol''), (''length'', JNum 20)]), demo_store, demo_world)"
  by code_simp

text \<open>The value \<open>serviceSettings('toString', false)\<close> yields alone.\<close>

theorem serviceSettings_inherited_name_witness:
  "fst (serviceSettings demo_env ''toString'' False demo_store demo_world)
     = Inr (JObj [(''user'', JStr ''alice''), (''length'', JNum 20)])"
  using serviceSettings_inherited_name by simp

section \<open>Importing settings\<close>

text \<open>
  C2. \<open>import\<close> does not merge as \<open>saveGlobals\<close> does. On the example store, whose
  \<open>global.user\<close> is \<open>alice\<close>, importing \<open>{global: {user: bob}}\<close> leaves
  \<open>alice\<close> in the document it dumps and in the cached document, where
  \<open>saveGlobals({user: bob})\<close> dumps \<open>bob\<close>.
\<close>

theorem import_keeps_saved_value:
  "get (obj_get demo_document ''global'') ''user'' = JStr ''alice''
   \<and> configCache (fst (snd (import demo_env (JObj [(''global'', JObj [(''user'', JStr ''bob'')])])
        demo_store demo_world)))
       = JObj [(''global'', JObj [(''user'', JStr ''alice''), (''length'', JNum 20)]),
               (''services'', JObj [(''github'', JObj [(''user'', JStr ''carol'')])]),
               (''sources'', JObj [(''home'', JObj [(''url'', JStr ''home.example'')]),
                                  (''__current__'', JStr ''home'')])]
   \<and> writes (snd (snd (import demo_env (JObj [(''global'', JObj [(''user'', JStr ''bob'')])])
        demo_store demo_world)))
       = [Some ''{global:{length:20,user:alice},services:{github:{user:carol}},sources:{__current__:home,home:{url:home.example}}}'']
   \<and> writes (snd (snd (saveGlobals demo_env (JObj [(''user'', JStr ''bob'')])
        demo_store demo_world)))
       = [Some ''{global:{length:20,user:bob},services:{github:{user:carol}},sources:{__current__:home,home:{url:home.example}}}'']"
  by code_simp

section \<open>Failures of the cipher and of the write in \<open>dump\<close>\<close>

text \<open>
  C9. A failure of the write reaches the caller as it is, but a failure of the encryption
  does not: on the example store with a cipher that cannot encrypt, \<open>dump\<close> (and
  \<open>saveGlobals\<close> through it) reports success, after writing \<open>undefined\<close> over the
  file.
\<close>

theorem dump_drops_encrypt_error:
  "encrypt (demo_env\<lparr>encrypt := \<lambda>json. Inl (CipherError ''failed'')\<rparr>)
       (stringify demo_env (sort_json (JObj demo_document)))
     = Inl (CipherError ''failed'')
   \<and> dump (demo_env\<lparr>encrypt := \<lambda>json. Inl (CipherError ''failed'')\<rparr>)
       (JObj demo_document) demo_store demo_world
       = (Inr (), demo_store,
          \<lparr>on_disk = Inr ''undefined'', write_error = None, reads = 0, writes = [None]\<rparr>)
   \<and> fst (saveGlobals (demo_env\<lparr>encrypt := \<lambda>json. Inl (CipherError ''failed'')\<rparr>)
       (JObj [(''user'', JStr ''bob'')]) demo_store demo_world) = Inr ()
   \<and> fst (dump demo_env (JObj demo_document) demo_store
            (demo_world\<lparr>write_error := Some (IOError ''EACCES'')\<rparr>))
       = Inl (Io (IOError ''EACCES''))"
  by (simp add: dump_def saveGlobals_def load_ref_def writeFile_def demo_env_def demo_world_def
      demo_store_def nullish_def Let_def)

end
